theory Spec2Isabelle
  imports Complex_Main
begin

section \<open>The player of ShadowEditor.Web (src/player/Player.js)\<close>

text \<open>
  \<^verbatim>\<open>Player.js\<close> coordinates seven components (a loader and six per-session
  subsystems), a clock, a DOM container and a rendering context. The components, the
  THREE library, the DOM and the promise machinery are collaborators of the file, not
  part of it. The embedding therefore keeps, next to the fields of the player object,
  a trace: every statement of the source that calls a collaborator or writes a field
  appends one entry, in program order. Collaborator calls are taken not to throw
  (the player never catches anything but the exception of \<^verbatim>\<open>JSON.parse\<close>); the
  exceptions the player's own code raises (a property read on \<^verbatim>\<open>null\<close>, a
  \<^verbatim>\<open>removeChild\<close> of a node that is not a child) are results of the model.
\<close>

subsection \<open>Values of the host\<close>

text \<open>The argument of \<^verbatim>\<open>start\<close> is any JavaScript value; \<^verbatim>\<open>typeof\<close> as in the language.\<close>

datatype jsvalue =
    JSUndefined
  | JSNull
  | JSBoolean bool
  | JSNumber int
  | JSString string
  | JSObject

fun typeof :: "jsvalue \<Rightarrow> string" where
  "typeof JSUndefined = ''undefined''"
| "typeof JSNull = ''object''"
| "typeof (JSBoolean b) = ''boolean''"
| "typeof (JSNumber n) = ''number''"
| "typeof (JSString s) = ''string''"
| "typeof JSObject = ''object''"

fun string_of :: "jsvalue \<Rightarrow> string" where
  "string_of (JSString s) = s"
| "string_of v = []"

text \<open>
  The result of \<^verbatim>\<open>JSON.parse\<close>. The parser itself belongs to the host: the functions
  below take it as a parameter \<open>JSON_parse\<close>, \<open>None\<close> standing for the SyntaxError it
  throws.
\<close>

datatype json =
    JNull
  | JBool bool
  | JNum int
  | JStr string
  | JArr "json list"
  | JObj "(string \<times> json) list"

text \<open>
  Numbers are IEEE-754 doubles. The only arithmetic of the file is the quotient
  \<^verbatim>\<open>clientWidth / clientHeight\<close> of two integers, kept symbolic as \<open>Quot w h\<close> so that
  neither rounding nor the division by zero (Infinity or NaN in JavaScript) is decided
  by HOL's total division. \<open>Lit\<close> is a literal of the source.
\<close>

datatype jsnum = Lit rat | Quot int int

type_synonym handle = nat

datatype node = Stats_dom | Payload_node handle | Created_node nat

record camera =
  fov :: jsnum
  aspect :: jsnum
  near :: jsnum
  far :: jsnum

record renderer =
  antialias :: bool
  domElement :: node

record scene =
  children :: "handle list"

datatype listener = Payload_listener handle | New_AudioListener

text \<open>What the promise of \<^verbatim>\<open>loader.create(jsons)\<close> resolves to (\<^verbatim>\<open>obj\<close> in the source).\<close>

record payload =
  obj_camera :: "camera option"
  obj_renderer :: "renderer option"
  obj_audioListener :: "handle option"
  obj_scene :: "scene option"
  obj_scripts :: handle
  obj_animations :: handle

subsection \<open>The player object and its trace\<close>

datatype component =
    PlayerLoader
  | PlayerEvent
  | PlayerControl
  | PlayerAudio
  | PlayerRenderer
  | PlayerAnimation
  | PlayerPhysics

text \<open>
  The two messages of \<^verbatim>\<open>UI.msg\<close>: the first asks for scene data of type string, the
  second reports that the scene data cannot be parsed as JSON.
\<close>

datatype message = Msg_string_required | Msg_cannot_parse

datatype error = TypeError | NotFoundError

datatype event =
    UI_msg message
  | Console_warn
  | Set_isPlaying bool
  | Set_display string
  | Set_camera "camera option"
  | Set_renderer "renderer option"
  | Set_scene "scene option"
  | Set_aspect jsnum
  | Set_children_length_0
  | Loader_create json
  | Create component "scene option" "camera option" "renderer option" "handle option"
  | Init component
  | Start component
  | Stop component
  | Dispose component
  | Update component jsnum
  | Dispatch_init
  | Clock_start
  | Clock_stop
  | Clock_getDelta
  | RequestAnimationFrame
  | Camera_updateProjectionMatrix
  | Camera_add listener
  | Renderer_setSize int int
  | AppendChild node
  | RemoveChild node
  | Stats_begin
  | Stats_end

text \<open>The element \<^verbatim>\<open>UI.get('player', this.id).dom\<close>.\<close>

record container =
  display :: string
  clientWidth :: int
  clientHeight :: int
  childNodes :: "node list"

text \<open>
  A barrier \<^verbatim>\<open>Promise.all([promise1, ..., promise6])\<close>: waiting for the listed
  components, fulfilled, or rejected.
\<close>

datatype join = Waiting "component list" | Fulfilled | Rejected

text \<open>
  The player after construction and \<^verbatim>\<open>render()\<close>. \<open>stats\<close> says whether \<^verbatim>\<open>this.stats\<close>
  exists; \<open>loads\<close> counts the pending promises of \<^verbatim>\<open>loader.create\<close>, each with the
  callback \<open>loader_then\<close> attached; \<open>joins\<close> lists the barriers in the order of their
  creation; \<open>frames\<close> counts the callbacks handed to \<^verbatim>\<open>requestAnimationFrame\<close> and
  not yet run; \<open>created\<close> counts the canvases of the renderers the player made itself.
\<close>

record player =
  stats :: bool
  scene :: "scene option"
  camera :: "camera option"
  renderer :: "renderer option"
  isPlaying :: bool
  dom :: container
  trace :: "event list"
  loads :: nat
  joins :: "join list"
  frames :: nat
  created :: nat

definition emit :: "event list \<Rightarrow> player \<Rightarrow> player" where
  "emit es s = s\<lparr>trace := trace s @ es\<rparr>"

text \<open>
  The constructor followed by \<^verbatim>\<open>render()\<close>, in a container of the given size. Of the
  options only \<^verbatim>\<open>showStats\<close> is read by the methods below; \<^verbatim>\<open>render()\<close> appends the
  statistics overlay to the container when it is set, and hides the container.
\<close>

definition Player :: "bool \<Rightarrow> int \<Rightarrow> int \<Rightarrow> player" where
  "Player showStats w h =
     \<lparr>stats = showStats, scene = None, camera = None, renderer = None,
      isPlaying = False,
      dom = \<lparr>display = ''none'', clientWidth = w, clientHeight = h,
             childNodes = (if showStats then [Stats_dom] else [])\<rparr>,
      trace = [], loads = 0, joins = [], frames = 0, created = 0\<rparr>"

subsection \<open>DOM operations on the container\<close>

definition appendChild :: "node \<Rightarrow> player \<Rightarrow> player" where
  "appendChild n s =
     emit [AppendChild n]
       (s\<lparr>dom := (dom s)\<lparr>childNodes := removeAll n (childNodes (dom s)) @ [n]\<rparr>\<rparr>)"

definition removeChild :: "node \<Rightarrow> player \<Rightarrow> (error \<times> player) + player" where
  "removeChild n s =
     (if n \<in> set (childNodes (dom s))
      then Inr (emit [RemoveChild n]
                  (s\<lparr>dom := (dom s)\<lparr>childNodes := removeAll n (childNodes (dom s))\<rparr>\<rparr>))
      else Inl (NotFoundError, emit [RemoveChild n] s))"

definition requestAnimationFrame :: "player \<Rightarrow> player" where
  "requestAnimationFrame s = emit [RequestAnimationFrame] (s\<lparr>frames := frames s + 1\<rparr>)"

subsection \<open>start\<close>

definition start :: "(string \<Rightarrow> json option) \<Rightarrow> jsvalue \<Rightarrow> player \<Rightarrow> player" where
  "start JSON_parse sceneData s =
     (if typeof sceneData \<noteq> ''string'' then emit [UI_msg Msg_string_required] s
      else case JSON_parse (string_of sceneData) of
        None \<Rightarrow> emit [UI_msg Msg_cannot_parse] s
      | Some jsons \<Rightarrow>
          if isPlaying s then s
          else
            let s1 = emit [Set_isPlaying True] (s\<lparr>isPlaying := True\<rparr>);
                s2 = emit [Set_display []] (s1\<lparr>dom := (dom s1)\<lparr>display := []\<rparr>\<rparr>)
            in emit [Loader_create jsons] (s2\<lparr>loads := loads s2 + 1\<rparr>))"

subsection \<open>initPlayer\<close>

definition new_PerspectiveCamera :: "jsnum \<Rightarrow> jsnum \<Rightarrow> jsnum \<Rightarrow> jsnum \<Rightarrow> camera" where
  "new_PerspectiveCamera f a n fr = \<lparr>fov = f, aspect = a, near = n, far = fr\<rparr>"

definition initPlayer :: "payload \<Rightarrow> player \<Rightarrow> player" where
  "initPlayer obj s =
     (let w = clientWidth (dom s);
          h = clientHeight (dom s);
          s1 = emit [Set_camera (obj_camera obj)] (s\<lparr>camera := obj_camera obj\<rparr>);
          s2 = (if camera s1 = None
                then
                  let cam = new_PerspectiveCamera (Lit 50) (Quot w h) (Lit (1 / 10)) (Lit 1000)
                  in emit [Console_warn, Set_camera (Some cam)] (s1\<lparr>camera := Some cam\<rparr>)
                else s1);
          s3 = emit [Camera_updateProjectionMatrix] s2;
          r = (case obj_renderer obj of
                 Some r0 \<Rightarrow> r0
               | None \<Rightarrow> \<lparr>antialias = True, domElement = Created_node (created s3)\<rparr>);
          s4 = (case obj_renderer obj of
                  Some r0 \<Rightarrow> s3
                | None \<Rightarrow> s3\<lparr>created := created s3 + 1\<rparr>);
          s5 = emit [Set_renderer (Some r)] (s4\<lparr>renderer := Some r\<rparr>);
          s6 = emit [Renderer_setSize w h] s5;
          s7 = appendChild (domElement r) s6;
          l = (case obj_audioListener obj of
                 Some l0 \<Rightarrow> Payload_listener l0
               | None \<Rightarrow> New_AudioListener);
          s8 = emit [Camera_add l] s7;
          sc = (case obj_scene obj of Some sc0 \<Rightarrow> sc0 | None \<Rightarrow> \<lparr>children = []\<rparr>)
      in emit [Set_scene (Some sc)] (s8\<lparr>scene := Some sc\<rparr>))"

subsection \<open>The callbacks of start\<close>

definition subsystems :: "component list" where
  "subsystems =
     [PlayerEvent, PlayerControl, PlayerAudio, PlayerRenderer, PlayerAnimation, PlayerPhysics]"

text \<open>The callback of \<^verbatim>\<open>Promise.all(...).then\<close>.\<close>

definition join_then :: "player \<Rightarrow> player" where
  "join_then s = emit [Init PlayerEvent, Clock_start, Start PlayerEvent] s"

text \<open>
  The callback of \<^verbatim>\<open>loader.create(jsons).then\<close>, run with the value the promise
  resolved to. The six promises are collected in a new barrier.
\<close>

definition loader_then :: "payload \<Rightarrow> player \<Rightarrow> player" where
  "loader_then obj s =
     (let s1 = initPlayer obj s;
          s2 = emit [Dispatch_init] s1;
          s3 = emit
                 [Create PlayerEvent (scene s2) (camera s2) (renderer s2) (Some (obj_scripts obj)),
                  Create PlayerControl (scene s2) (camera s2) (renderer s2) None,
                  Create PlayerAudio (scene s2) (camera s2) (renderer s2) None,
                  Create PlayerRenderer (scene s2) (camera s2) (renderer s2) None,
                  Create PlayerAnimation (scene s2) (camera s2) (renderer s2)
                    (Some (obj_animations obj)),
                  Create PlayerPhysics (scene s2) (camera s2) (renderer s2) None] s2;
          s4 = s3\<lparr>joins := joins s3 @ [Waiting subsystems]\<rparr>
      in requestAnimationFrame s4)"

subsection \<open>stop\<close>

definition stop :: "player \<Rightarrow> (error \<times> player) + player" where
  "stop s =
     (if \<not> isPlaying s then Inr s
      else
        let s1 = emit [Set_isPlaying False] (s\<lparr>isPlaying := False\<rparr>);
            s2 = emit [Stop PlayerEvent] s1;
            s3 = emit
                   [Dispose PlayerLoader, Dispose PlayerEvent, Dispose PlayerControl,
                    Dispose PlayerAudio, Dispose PlayerRenderer, Dispose PlayerAnimation,
                    Dispose PlayerPhysics] s2
        in case renderer s3 of
             None \<Rightarrow> Inl (TypeError, s3)
           | Some r \<Rightarrow>
               (case removeChild (domElement r) s3 of
                  Inl e \<Rightarrow> Inl e
                | Inr s4 \<Rightarrow>
                    let s5 = emit [Set_display ''none'']
                               (s4\<lparr>dom := (dom s4)\<lparr>display := ''none''\<rparr>\<rparr>)
                    in case scene s5 of
                         None \<Rightarrow> Inl (TypeError, s5)
                       | Some sc \<Rightarrow>
                           let s6 = emit [Set_children_length_0]
                                      (s5\<lparr>scene := Some (sc\<lparr>children := []\<rparr>)\<rparr>);
                               s7 = emit [Set_scene None] (s6\<lparr>scene := None\<rparr>);
                               s8 = emit [Set_camera None] (s7\<lparr>camera := None\<rparr>);
                               s9 = emit [Set_renderer None] (s8\<lparr>renderer := None\<rparr>)
                           in Inr (emit [Clock_stop] s9)))"

text \<open>The player as \<^verbatim>\<open>stop\<close> leaves it, whether it returned or threw.\<close>

definition after :: "(error \<times> player) + player \<Rightarrow> player" where
  "after r = (case r of Inl (e, s) \<Rightarrow> s | Inr s \<Rightarrow> s)"

subsection \<open>animate and resize\<close>

text \<open>\<open>deltaTime\<close> is the number \<^verbatim>\<open>this.clock.getDelta()\<close> returns in this tick.\<close>

definition animate :: "jsnum \<Rightarrow> player \<Rightarrow> player" where
  "animate deltaTime s =
     (if \<not> isPlaying s then s
      else
        let s1 = (if stats s then emit [Stats_begin] s else s);
            s2 = emit [Clock_getDelta] s1;
            s3 = emit
                   [Update PlayerEvent deltaTime, Update PlayerControl deltaTime,
                    Update PlayerRenderer deltaTime, Update PlayerAnimation deltaTime,
                    Update PlayerPhysics deltaTime] s2;
            s4 = (if stats s3 then emit [Stats_end] s3 else s3)
        in requestAnimationFrame s4)"

definition resize :: "player \<Rightarrow> player" where
  "resize s =
     (case camera s of
        None \<Rightarrow> s
      | Some cam \<Rightarrow>
          (case renderer s of
             None \<Rightarrow> s
           | Some r \<Rightarrow>
               let width = clientWidth (dom s);
                   height = clientHeight (dom s);
                   s1 = emit [Set_aspect (Quot width height)]
                          (s\<lparr>camera := Some (cam\<lparr>aspect := Quot width height\<rparr>)\<rparr>);
                   s2 = emit [Camera_updateProjectionMatrix] s1
               in emit [Renderer_setSize width height] s2))"

definition onResize :: "player \<Rightarrow> player" where
  "onResize s = resize s"

subsection \<open>The host: calls, promises and frames\<close>

text \<open>
  What can happen to a mounted player: a call of one of its methods; the window or the
  container changing size, which runs \<^verbatim>\<open>onResize\<close>; the promise of a pending
  \<^verbatim>\<open>loader.create\<close> resolving or rejecting; the promise a subsystem's \<^verbatim>\<open>create\<close>
  returned for barrier \<open>i\<close> resolving or rejecting; a frame callback being run.
  A barrier is fulfilled, and its callback run, when the last of its six promises
  resolves; it is rejected as soon as one of them rejects, and nothing is attached to
  that outcome.
\<close>

datatype action =
    Call_start jsvalue
  | Call_stop
  | Call_resize
  | Host_resize int int
  | Loader_settles "payload option"
  | Create_settles nat component bool
  | Frame jsnum

definition settle :: "nat \<Rightarrow> component \<Rightarrow> bool \<Rightarrow> player \<Rightarrow> player" where
  "settle i c ok s =
     (if i < length (joins s) then
        (case joins s ! i of
           Waiting cs \<Rightarrow>
             if c \<in> set cs then
               if ok then
                 if removeAll c cs = [] then join_then (s\<lparr>joins := (joins s)[i := Fulfilled]\<rparr>)
                 else s\<lparr>joins := (joins s)[i := Waiting (removeAll c cs)]\<rparr>
               else s\<lparr>joins := (joins s)[i := Rejected]\<rparr>
             else s
         | Fulfilled \<Rightarrow> s
         | Rejected \<Rightarrow> s)
      else s)"

fun step :: "(string \<Rightarrow> json option) \<Rightarrow> action \<Rightarrow> player \<Rightarrow> player" where
  "step P (Call_start v) s = start P v s"
| "step P Call_stop s = after (stop s)"
| "step P Call_resize s = resize s"
| "step P (Host_resize w h) s =
     onResize (s\<lparr>dom := (dom s)\<lparr>clientWidth := w, clientHeight := h\<rparr>\<rparr>)"
| "step P (Loader_settles r) s =
     (if loads s = 0 then s
      else case r of
             None \<Rightarrow> s\<lparr>loads := loads s - 1\<rparr>
           | Some obj \<Rightarrow> loader_then obj (s\<lparr>loads := loads s - 1\<rparr>))"
| "step P (Create_settles i c ok) s = settle i c ok s"
| "step P (Frame dt) s =
     (if frames s = 0 then s else animate dt (s\<lparr>frames := frames s - 1\<rparr>))"

fun run :: "(string \<Rightarrow> json option) \<Rightarrow> action list \<Rightarrow> player \<Rightarrow> player" where
  "run P [] s = s"
| "run P (a # as) s = run P as (step P a s)"

text \<open>The trace entries a step adds.\<close>

definition emitted :: "(string \<Rightarrow> json option) \<Rightarrow> action \<Rightarrow> player \<Rightarrow> event list" where
  "emitted P a s = drop (length (trace s)) (trace (step P a s))"

subsection \<open>Classifying trace entries\<close>


text \<open>The hooks behind the barrier: an \<^verbatim>\<open>init()\<close>, a \<^verbatim>\<open>start()\<close>, the start of the clock.\<close>

fun is_hook :: "event \<Rightarrow> bool" where
  "is_hook (Init c) = True"
| "is_hook (Start c) = True"
| "is_hook Clock_start = True"
| "is_hook e = False"

text \<open>An invocation of \<^verbatim>\<open>loader.create(jsons)\<close>: one per accepted \<^verbatim>\<open>start\<close>.\<close>

fun is_load :: "event \<Rightarrow> bool" where
  "is_load (Loader_create j) = True"
| "is_load e = False"

text \<open>
  The rendering surface of the current renderer is a child of the container and a
  scene is present. It holds of every state a mounted player can reach (\<open>attached_run\<close>).
\<close>

definition attached :: "player \<Rightarrow> bool" where
  "attached s =
     (case renderer s of
        None \<Rightarrow> True
      | Some r \<Rightarrow> domElement r \<in> set (childNodes (dom s)) \<and> scene s \<noteq> None)"

text \<open>The promises of barrier \<open>i\<close> for the components \<open>cs\<close> resolving, in the order of the list.\<close>

definition resolve :: "nat \<Rightarrow> component list \<Rightarrow> action list" where
  "resolve i cs = map (\<lambda>c. Create_settles i c True) cs"

subsection \<open>A concrete session\<close>

text \<open>
  For evaluation: a parser that accepts the text \<^verbatim>\<open>{}\<close> only, a payload with no camera,
  renderer, listener or scene, and the histories of a session in a container of
  800 by 600: started and loaded; then one subsystem rejecting and a frame running;
  then, instead, all six subsystems resolving.
\<close>

definition parse_braces :: "string \<Rightarrow> json option" where
  "parse_braces str = (if str = ''{}'' then Some (JObj []) else None)"

definition empty_payload :: payload where
  "empty_payload =
     \<lparr>obj_camera = None, obj_renderer = None, obj_audioListener = None, obj_scene = None,
      obj_scripts = 0, obj_animations = 0\<rparr>"

definition boot :: "action list" where
  "boot = [Call_start (JSString ''{}''), Loader_settles (Some empty_payload)]"

definition boot_rejected :: "action list" where
  "boot_rejected = boot @ [Create_settles 0 PlayerAudio False, Frame (Lit 0)]"

definition boot_resolved :: "action list" where
  "boot_resolved = boot @ resolve 0 subsystems"

definition booted :: player where
  "booted = run parse_braces boot (Player False 800 600)"

definition started :: player where
  "started = start parse_braces (JSString ''{}'') (Player False 800 600)"

definition five_resolved :: player where
  "five_resolved = run parse_braces (resolve 0 (butlast subsystems)) booted"

subsection \<open>Counting sessions and broadcasts\<close>

text \<open>
  How often the notification \<^verbatim>\<open>init\<close> has been broadcast, and how many sessions have
  been started (each accepted \<^verbatim>\<open>start\<close> calls \<^verbatim>\<open>loader.create\<close> once).
\<close>

definition broadcasts :: "player \<Rightarrow> nat" where
  "broadcasts s = count_list (trace s) Dispatch_init"

definition sessions :: "player \<Rightarrow> nat" where
  "sessions s = length (filter is_load (trace s))"


subsection \<open>Further histories\<close>



text \<open>
  A session whose load rejects. A session stopped while its load is pending and
  started again, both loads resolving afterwards. The concrete session with its audio
  subsystem rejected; then stopped and started again, the second session loaded and
  all its subsystems but the last resolved.
\<close>

definition load_rejected :: "action list" where
  "load_rejected = [Call_start (JSString ''{}''), Loader_settles None]"

definition restart_race :: "action list" where
  "restart_race =
     [Call_start (JSString ''{}''), Call_stop, Call_start (JSString ''{}''),
      Loader_settles (Some empty_payload), Loader_settles (Some empty_payload)]"

definition audio_rejected :: player where
  "audio_rejected =
     run parse_braces (boot @ [Create_settles 0 PlayerAudio False]) (Player False 800 600)"

definition second_session :: "action list" where
  "second_session =
     [Call_stop, Call_start (JSString ''{}''), Loader_settles (Some empty_payload)] @
     resolve 1 (butlast subsystems)"

definition second_waiting :: player where
  "second_waiting = run parse_braces second_session audio_rejected"

section \<open>Properties\<close>

lemmas player_defs =
  start_def stop_def after_def animate_def resize_def onResize_def initPlayer_def
  loader_then_def join_then_def settle_def requestAnimationFrame_def appendChild_def
  removeChild_def emit_def new_PerspectiveCamera_def subsystems_def Player_def

lemmas session_defs =
  booted_def boot_def boot_rejected_def boot_resolved_def resolve_def parse_braces_def
  empty_payload_def started_def five_resolved_def load_rejected_def restart_race_def
  audio_rejected_def second_session_def second_waiting_def

subsection \<open>The concrete session, evaluated\<close>

lemma started_eval:
  "started =
     \<lparr>stats = False, scene = None, camera = None, renderer = None, isPlaying = True,
      dom = \<lparr>display = [], clientWidth = 800, clientHeight = 600, childNodes = []\<rparr>,
      trace = [Set_isPlaying True, Set_display [], Loader_create (JObj [])],
      loads = 1, joins = [], frames = 0, created = 0\<rparr>"
  by (simp add: session_defs player_defs Let_def)

lemma booted_isPlaying: "isPlaying booted"
  by (simp add: session_defs player_defs Let_def)

lemma booted_renderer:
  "renderer booted = Some \<lparr>antialias = True, domElement = Created_node 0\<rparr>"
  by (simp add: session_defs player_defs Let_def)

lemma booted_camera:
  "camera booted =
     Some \<lparr>fov = Lit 50, aspect = Quot 800 600, near = Lit (1 / 10), far = Lit 1000\<rparr>"
  by (simp add: session_defs player_defs Let_def)

lemma booted_joins: "joins booted = [Waiting subsystems]"
  by (simp add: session_defs player_defs Let_def)

lemma booted_frames: "frames booted = 1"
  by (simp add: session_defs player_defs Let_def)

lemma booted_stats: "\<not> stats booted"
  by (simp add: session_defs player_defs Let_def)

lemma booted_dom:
  "dom booted =
     \<lparr>display = [], clientWidth = 800, clientHeight = 600, childNodes = [Created_node 0]\<rparr>"
  by (simp add: session_defs player_defs Let_def)

lemma booted_counts: "broadcasts booted = 1 \<and> sessions booted = 1 \<and> loads booted = 0"
  by (simp add: broadcasts_def sessions_def session_defs player_defs Let_def)

lemma five_resolved_joins: "joins five_resolved = [Waiting [PlayerPhysics]]"
  by (simp add: session_defs player_defs Let_def)

lemma five_resolved_last:
  "emitted parse_braces (Create_settles 0 PlayerPhysics True) five_resolved =
     [Init PlayerEvent, Clock_start, Start PlayerEvent]"
  by (simp add: emitted_def settle_def join_then_def emit_def five_resolved_joins)


lemma booted_audio_resolved:
  "joins (step parse_braces (Create_settles 0 PlayerAudio True) booted) =
     [Waiting [PlayerEvent, PlayerControl, PlayerRenderer, PlayerAnimation, PlayerPhysics]]"
  by (simp add: settle_def booted_joins subsystems_def)

lemma audio_rejected_joins: "joins audio_rejected = [Rejected]"
  by (simp add: session_defs player_defs Let_def)

lemma second_waiting_joins: "joins second_waiting = [Rejected, Waiting [PlayerPhysics]]"
  by (simp add: session_defs player_defs Let_def)

lemma second_waiting_last:
  "emitted parse_braces (Create_settles 1 PlayerPhysics True) second_waiting =
     [Init PlayerEvent, Clock_start, Start PlayerEvent]"
  by (simp add: emitted_def settle_def join_then_def emit_def second_waiting_joins)

subsection \<open>Auxiliary facts\<close>

lemma isPlaying_after_stop: "\<not> isPlaying (after (stop s))"
  by (simp add: stop_def after_def removeChild_def emit_def Let_def split: option.splits)

lemma removeAll_Nil_iff: "removeAll c ws = [] \<longleftrightarrow> set ws \<subseteq> {c}"
  by (induction ws) auto

text \<open>The rendering surface stays attached: \<open>attached\<close> is an invariant of the host's steps.\<close>

lemma attached_iff:
  "attached s \<longleftrightarrow>
     (\<forall>r. renderer s = Some r \<longrightarrow>
        domElement r \<in> set (childNodes (dom s)) \<and> scene s \<noteq> None)"
  by (simp add: attached_def split: option.splits)

lemma attached_Player: "attached (Player b w h)"
  by (simp add: attached_iff Player_def)

lemma attached_start: "attached s \<Longrightarrow> attached (start P v s)"
  by (simp add: attached_iff start_def emit_def Let_def split: option.splits)

lemma attached_initPlayer: "attached (initPlayer obj s)"
  by (simp add: attached_iff initPlayer_def appendChild_def emit_def Let_def
      split: option.splits)

lemma attached_loader_then: "attached (loader_then obj s)"
  using attached_initPlayer [of obj s]
  by (auto simp add: attached_iff loader_then_def requestAnimationFrame_def emit_def Let_def
      split: option.splits)

lemma attached_stop: "attached s \<Longrightarrow> attached (after (stop s))"
  by (auto simp add: attached_iff stop_def after_def removeChild_def emit_def Let_def
      split: option.splits)

lemma attached_resize: "attached s \<Longrightarrow> attached (resize s)"
  by (auto simp add: attached_iff resize_def emit_def Let_def split: option.splits)

lemma attached_settle: "attached s \<Longrightarrow> attached (settle i c ok s)"
  by (auto simp add: attached_iff settle_def join_then_def emit_def split: join.splits)

lemma attached_animate: "attached s \<Longrightarrow> attached (animate dt s)"
  by (auto simp add: attached_iff animate_def requestAnimationFrame_def emit_def Let_def)

lemma attached_step:
  assumes "attached s"
  shows "attached (step P a s)"
proof (cases a)
  case (Call_start v)
  with assms show ?thesis by (simp add: attached_start)
next
  case Call_stop
  with assms show ?thesis by (simp add: attached_stop)
next
  case Call_resize
  with assms show ?thesis by (simp add: attached_resize)
next
  case (Host_resize w h)
  from assms have "attached (s\<lparr>dom := (dom s)\<lparr>clientWidth := w, clientHeight := h\<rparr>\<rparr>)"
    by (simp add: attached_iff)
  with Host_resize show ?thesis by (simp add: onResize_def attached_resize)
next
  case (Loader_settles r)
  from assms have "attached (s\<lparr>loads := loads s - 1\<rparr>)" by (simp add: attached_iff)
  with assms Loader_settles show ?thesis
    by (simp add: attached_loader_then split: option.splits)
next
  case (Create_settles i c ok)
  with assms show ?thesis by (simp add: attached_settle)
next
  case (Frame dt)
  from assms have "attached (s\<lparr>frames := frames s - 1\<rparr>)" by (simp add: attached_iff)
  with assms Frame show ?thesis by (simp add: attached_animate)
qed

lemma attached_run: "attached s \<Longrightarrow> attached (run P as s)"
  by (induction as arbitrary: s) (simp_all add: attached_step)

text \<open>Which steps invoke a hook: none but the resolution a barrier was last waiting for.\<close>

lemma hooks_start: "filter is_hook (drop (length (trace s)) (trace (start P v s))) = []"
  by (simp add: start_def emit_def Let_def split: option.splits)

lemma hooks_stop: "filter is_hook (drop (length (trace s)) (trace (after (stop s)))) = []"
  by (simp add: stop_def after_def removeChild_def emit_def Let_def split: option.splits)

lemma hooks_resize: "filter is_hook (drop (length (trace s)) (trace (resize s))) = []"
  by (simp add: resize_def emit_def Let_def split: option.splits)

lemma hooks_initPlayer:
  "filter is_hook (drop (length (trace s)) (trace (initPlayer obj s))) = []"
  by (simp add: initPlayer_def appendChild_def emit_def Let_def split: option.splits)

lemma length_trace_initPlayer: "length (trace s) \<le> length (trace (initPlayer obj s))"
  by (simp add: initPlayer_def appendChild_def emit_def Let_def split: option.splits)

lemma hooks_loader_then:
  "filter is_hook (drop (length (trace s)) (trace (loader_then obj s))) = []"
  using hooks_initPlayer [of s obj] length_trace_initPlayer [of s obj]
  by (simp add: loader_then_def requestAnimationFrame_def emit_def Let_def)

lemma hooks_animate: "filter is_hook (drop (length (trace s)) (trace (animate dt s))) = []"
  by (simp add: animate_def requestAnimationFrame_def emit_def Let_def)

lemma hooks_settle:
  "filter is_hook (drop (length (trace s)) (trace (settle i c ok s))) \<noteq> [] \<Longrightarrow>
   ok \<and> i < length (joins s) \<and> (\<exists>cs. joins s ! i = Waiting cs \<and> set cs = {c})"
  by (auto simp add: settle_def join_then_def emit_def removeAll_Nil_iff
      split: if_splits join.splits)

lemma hooks_step:
  assumes "filter is_hook (emitted P a s) \<noteq> []"
  shows "\<exists>i c cs. a = Create_settles i c True \<and> i < length (joins s) \<and>
     joins s ! i = Waiting cs \<and> set cs = {c}"
proof (cases a)
  case (Call_start v)
  with assms hooks_start [of s P v] show ?thesis by (simp add: emitted_def)
next
  case Call_stop
  with assms hooks_stop [of s] show ?thesis by (simp add: emitted_def)
next
  case Call_resize
  with assms hooks_resize [of s] show ?thesis by (simp add: emitted_def)
next
  case (Host_resize w h)
  with assms hooks_resize [of "s\<lparr>dom := (dom s)\<lparr>clientWidth := w, clientHeight := h\<rparr>\<rparr>"]
  show ?thesis by (simp add: emitted_def onResize_def)
next
  case (Loader_settles r)
  with assms hooks_loader_then [of "s\<lparr>loads := loads s - 1\<rparr>"]
  show ?thesis by (simp add: emitted_def split: if_splits option.splits)
next
  case (Create_settles i c ok)
  with assms hooks_settle [of s i c ok] show ?thesis by (simp add: emitted_def)
next
  case (Frame dt)
  with assms hooks_animate [of "s\<lparr>frames := frames s - 1\<rparr>" dt]
  show ?thesis by (simp add: emitted_def split: if_splits)
qed

text \<open>The six promises of a barrier resolving, one after the other, in any order.\<close>

lemma settle_last:
  "i < length (joins s) \<Longrightarrow> joins s ! i = Waiting ws \<Longrightarrow> set ws = {c} \<Longrightarrow>
   settle i c True s =
     s\<lparr>joins := (joins s)[i := Fulfilled],
       trace := trace s @ [Init PlayerEvent, Clock_start, Start PlayerEvent]\<rparr>"
  by (simp add: settle_def join_then_def emit_def removeAll_Nil_iff)

lemma settle_earlier:
  "i < length (joins s) \<Longrightarrow> joins s ! i = Waiting ws \<Longrightarrow> c \<in> set ws \<Longrightarrow>
   set ws \<noteq> {c} \<Longrightarrow>
   settle i c True s = s\<lparr>joins := (joins s)[i := Waiting (removeAll c ws)]\<rparr>"
  by (auto simp add: settle_def removeAll_Nil_iff)

lemma run_settle_all:
  "i < length (joins s) \<Longrightarrow> joins s ! i = Waiting ws \<Longrightarrow> ws \<noteq> [] \<Longrightarrow>
   distinct cs \<Longrightarrow> set cs = set ws \<Longrightarrow>
   run P (resolve i cs) s =
     s\<lparr>joins := (joins s)[i := Fulfilled],
       trace := trace s @ [Init PlayerEvent, Clock_start, Start PlayerEvent]\<rparr>"
proof (induction cs arbitrary: s ws)
  case Nil
  then show ?case by simp
next
  case (Cons c cs)
  show ?case
  proof (cases "set ws = {c}")
    case True
    from Cons.prems have "set cs \<subseteq> set ws - {c}" by auto
    with True have "cs = []" by simp
    with True Cons.prems show ?thesis by (simp add: resolve_def settle_last)
  next
    case False
    let ?s = "s\<lparr>joins := (joins s)[i := Waiting (removeAll c ws)]\<rparr>"
    from Cons.prems have c: "c \<in> set ws" by auto
    with False Cons.prems have st: "settle i c True s = ?s" by (simp add: settle_earlier)
    have ne: "removeAll c ws \<noteq> []"
      using False c by (auto simp add: removeAll_Nil_iff)
    have "run P (resolve i cs) ?s =
      ?s\<lparr>joins := (joins ?s)[i := Fulfilled],
         trace := trace ?s @ [Init PlayerEvent, Clock_start, Start PlayerEvent]\<rparr>"
    proof (rule Cons.IH)
      show "i < length (joins ?s)" using Cons.prems by simp
      show "joins ?s ! i = Waiting (removeAll c ws)" using Cons.prems by simp
      show "removeAll c ws \<noteq> []" by (rule ne)
      show "distinct cs" using Cons.prems by simp
      show "set cs = set (removeAll c ws)" using Cons.prems by auto
    qed
    with st show ?thesis by (simp add: resolve_def)
  qed
qed












text \<open>A bootstrapped session that is playing is torn down completely, in program order.\<close>

lemma stop_teardown:
  assumes "isPlaying s" and "renderer s = Some r" and "attached s"
  shows "\<exists>s'. stop s = Inr s' \<and>
     trace s' = trace s @
       [Set_isPlaying False, Stop PlayerEvent,
        Dispose PlayerLoader, Dispose PlayerEvent, Dispose PlayerControl,
        Dispose PlayerAudio, Dispose PlayerRenderer, Dispose PlayerAnimation,
        Dispose PlayerPhysics,
        RemoveChild (domElement r), Set_display ''none'',
        Set_children_length_0, Set_scene None, Set_camera None, Set_renderer None,
        Clock_stop] \<and>
     \<not> isPlaying s' \<and> scene s' = None \<and> camera s' = None \<and> renderer s' = None \<and>
     display (dom s') = ''none'' \<and> domElement r \<notin> set (childNodes (dom s'))"
  using assms
  by (auto simp add: attached_iff stop_def removeChild_def emit_def Let_def)

text \<open>What a step does to the barriers.\<close>

lemma joins_initPlayer: "joins (initPlayer obj s) = joins s"
  by (simp add: initPlayer_def appendChild_def emit_def Let_def split: option.splits)

lemma joins_start: "joins (start P v s) = joins s"
  by (simp add: start_def emit_def Let_def split: option.splits)

lemma joins_stop: "joins (after (stop s)) = joins s"
  by (simp add: stop_def after_def removeChild_def emit_def Let_def split: option.splits)

lemma joins_resize: "joins (resize s) = joins s"
  by (simp add: resize_def emit_def Let_def split: option.splits)

lemma joins_animate: "joins (animate dt s) = joins s"
  by (simp add: animate_def requestAnimationFrame_def emit_def Let_def)

lemma joins_loader_then: "joins (loader_then obj s) = joins s @ [Waiting subsystems]"
  by (simp add: loader_then_def requestAnimationFrame_def emit_def Let_def joins_initPlayer)

lemma joins_step_cases:
  "joins (step P a s) = joins s \<or>
   joins (step P a s) = joins s @ [Waiting subsystems] \<or>
   (\<exists>i c cs. a = Create_settles i c True \<and> i < length (joins s) \<and>
      joins s ! i = Waiting cs \<and> c \<in> set cs \<and>
      (joins (step P a s) = (joins s)[i := Waiting (removeAll c cs)] \<or>
       joins (step P a s) = (joins s)[i := Fulfilled] \<and> set cs = {c})) \<or>
   (\<exists>i c cs. a = Create_settles i c False \<and> i < length (joins s) \<and>
      joins s ! i = Waiting cs \<and> c \<in> set cs \<and>
      joins (step P a s) = (joins s)[i := Rejected])"
proof (cases a)
  case (Call_start v)
  then show ?thesis by (simp add: joins_start)
next
  case Call_stop
  then show ?thesis by (simp add: joins_stop)
next
  case Call_resize
  then show ?thesis by (simp add: joins_resize)
next
  case (Host_resize w h)
  then show ?thesis by (simp add: onResize_def joins_resize)
next
  case (Loader_settles r)
  then show ?thesis by (simp add: joins_loader_then split: option.splits)
next
  case (Create_settles i c ok)
  then show ?thesis
    by (auto simp add: settle_def join_then_def emit_def removeAll_Nil_iff split: join.splits)
next
  case (Frame dt)
  then show ?thesis by (simp add: joins_animate)
qed

lemma rejected_step:
  assumes "j < length (joins s)" and "joins s ! j = Rejected"
  shows "j < length (joins (step P a s)) \<and> joins (step P a s) ! j = Rejected"
  using joins_step_cases [of P a s] assms
  by (auto simp add: nth_append nth_list_update)

lemma rejected_run:
  "j < length (joins s) \<Longrightarrow> joins s ! j = Rejected \<Longrightarrow>
   j < length (joins (run P as s)) \<and> joins (run P as s) ! j = Rejected"
proof (induction as arbitrary: s)
  case Nil
  then show ?case by simp
next
  case (Cons a as)
  from rejected_step [OF Cons.prems, of P a]
  have "j < length (joins (step P a s))" "joins (step P a s) ! j = Rejected" by simp_all
  then show ?case using Cons.IH by simp
qed

lemma waiting_step:
  assumes "i < length (joins s)" and "joins s ! i = Waiting cs"
    and "joins (step P a s) ! i = Waiting cs'"
  shows "cs' = cs \<or> (\<exists>c. a = Create_settles i c True \<and> c \<in> set cs \<and> cs' = removeAll c cs)"
  using joins_step_cases [of P a s] assms
  by (auto simp add: nth_append nth_list_update split: if_splits)

lemma hooks_step_full:
  assumes "filter is_hook (emitted P a s) \<noteq> []"
  shows "\<exists>i c cs. a = Create_settles i c True \<and> i < length (joins s) \<and>
     joins s ! i = Waiting cs \<and> set cs = {c} \<and>
     step P a s =
       s\<lparr>joins := (joins s)[i := Fulfilled],
         trace := trace s @ [Init PlayerEvent, Clock_start, Start PlayerEvent]\<rparr>"
proof -
  from hooks_step [OF assms] obtain i c cs where
    h: "a = Create_settles i c True" "i < length (joins s)" "joins s ! i = Waiting cs"
       "set cs = {c}"
    by blast
  from settle_last [OF h(2,3,4)] h show ?thesis by simp
qed




section \<open>The claims\<close>

subsection \<open>C1: the startup barrier and the frame loop\<close>

text \<open>
  C1, as the code has it. The startup barrier gates the hooks, not the frame loop.
  The loader callback creates a barrier waiting for all six subsystems, invokes no
  hook, and schedules the first frame tick at once, whatever becomes of the six
  promises. The list a barrier waits for changes only by the resolution of one of its
  members, which leaves it. A step of the host invokes a hook (an \<^verbatim>\<open>init()\<close>, a
  \<^verbatim>\<open>start()\<close>, the start of the clock) only if it is the resolution of the one
  \<^verbatim>\<open>create\<close> a barrier was still waiting for; that step fulfils the barrier and
  invokes \<^verbatim>\<open>init()\<close> of the event subsystem, the start of the clock and \<^verbatim>\<open>start()\<close>
  of the event subsystem, and it does so in whatever state the player is then. A
  rejecting \<^verbatim>\<open>create\<close> rejects its barrier; a rejected barrier stays rejected over
  every further history, and every hook invoked later is invoked by the resolution of
  a \<^verbatim>\<open>create\<close> of another barrier: the hooks of a rejected barrier never run.
\<close>

theorem barrier_gates_hooks:
  "(filter is_hook (emitted P a s) \<noteq> [] \<longrightarrow>
      (\<exists>i c cs. a = Create_settles i c True \<and> i < length (joins s) \<and>
         joins s ! i = Waiting cs \<and> set cs = {c} \<and>
         step P a s =
           s\<lparr>joins := (joins s)[i := Fulfilled],
             trace := trace s @ [Init PlayerEvent, Clock_start, Start PlayerEvent]\<rparr>)) \<and>
   (k < length (joins s) \<and> joins s ! k = Waiting ws \<and> set ws = {e} \<longrightarrow>
      step P (Create_settles k e True) s =
        s\<lparr>joins := (joins s)[k := Fulfilled],
          trace := trace s @ [Init PlayerEvent, Clock_start, Start PlayerEvent]\<rparr>) \<and>
   (k < length (joins s) \<and> joins s ! k = Waiting ws \<and>
    joins (step P a s) ! k = Waiting ws' \<longrightarrow>
      ws' = ws \<or> (\<exists>c. a = Create_settles k c True \<and> c \<in> set ws \<and> ws' = removeAll c ws)) \<and>
   (j < length (joins s) \<and> joins s ! j = Waiting ds \<and> d \<in> set ds \<longrightarrow>
      step P (Create_settles j d False) s = s\<lparr>joins := (joins s)[j := Rejected]\<rparr>) \<and>
   (j < length (joins s) \<and> joins s ! j = Rejected \<longrightarrow>
      j < length (joins (run P as s)) \<and> joins (run P as s) ! j = Rejected \<and>
      (filter is_hook (emitted P b (run P as s)) \<noteq> [] \<longrightarrow>
         (\<exists>i c. b = Create_settles i c True \<and> i \<noteq> j))) \<and>
   joins (loader_then obj s) = joins s @ [Waiting subsystems] \<and>
   frames (loader_then obj s) = frames s + 1 \<and>
   filter is_hook (drop (length (trace s)) (trace (loader_then obj s))) = []"
proof -
  have one: "filter is_hook (emitted P a s) \<noteq> [] \<longrightarrow>
      (\<exists>i c cs. a = Create_settles i c True \<and> i < length (joins s) \<and>
         joins s ! i = Waiting cs \<and> set cs = {c} \<and>
         step P a s =
           s\<lparr>joins := (joins s)[i := Fulfilled],
             trace := trace s @ [Init PlayerEvent, Clock_start, Start PlayerEvent]\<rparr>)"
    using hooks_step_full [of P a s] by blast
  have last: "k < length (joins s) \<and> joins s ! k = Waiting ws \<and> set ws = {e} \<longrightarrow>
      step P (Create_settles k e True) s =
        s\<lparr>joins := (joins s)[k := Fulfilled],
          trace := trace s @ [Init PlayerEvent, Clock_start, Start PlayerEvent]\<rparr>"
    using settle_last [of k s ws e] by simp
  have two: "k < length (joins s) \<and> joins s ! k = Waiting ws \<and>
    joins (step P a s) ! k = Waiting ws' \<longrightarrow>
      ws' = ws \<or> (\<exists>c. a = Create_settles k c True \<and> c \<in> set ws \<and> ws' = removeAll c ws)"
    using waiting_step [of k s ws P a ws'] by blast
  have three: "j < length (joins s) \<and> joins s ! j = Waiting ds \<and> d \<in> set ds \<longrightarrow>
      step P (Create_settles j d False) s = s\<lparr>joins := (joins s)[j := Rejected]\<rparr>"
    by (simp add: settle_def)
  have four: "j < length (joins s) \<and> joins s ! j = Rejected \<longrightarrow>
      j < length (joins (run P as s)) \<and> joins (run P as s) ! j = Rejected \<and>
      (filter is_hook (emitted P b (run P as s)) \<noteq> [] \<longrightarrow>
         (\<exists>i c. b = Create_settles i c True \<and> i \<noteq> j))"
  proof (intro impI conjI)
    assume r: "j < length (joins s) \<and> joins s ! j = Rejected"
    then have p: "j < length (joins (run P as s)) \<and> joins (run P as s) ! j = Rejected"
      by (simp add: rejected_run)
    from p show "j < length (joins (run P as s))" by simp
    from p show "joins (run P as s) ! j = Rejected" by simp
    assume "filter is_hook (emitted P b (run P as s)) \<noteq> []"
    from hooks_step [OF this] p show "\<exists>i c. b = Create_settles i c True \<and> i \<noteq> j"
      by auto
  qed
  have five: "joins (loader_then obj s) = joins s @ [Waiting subsystems]"
    "frames (loader_then obj s) = frames s + 1"
    by (simp_all add: loader_then_def requestAnimationFrame_def emit_def Let_def
        joins_initPlayer initPlayer_def appendChild_def split: option.splits)
  from one last two three four five hooks_loader_then [of s obj] show ?thesis by blast
qed

text \<open>
  In the concrete session: with five subsystems resolved, the resolution of the sixth
  fulfils the barrier and runs the hooks, and its rejection rejects the barrier; the
  resolution of the audio subsystem takes it off the list of the new barrier. With the
  barrier of the first session rejected, the player is stopped and started again: the
  first barrier is still rejected, and the hooks that run belong to the second.
\<close>

theorem barrier_gates_hooks_witness:
  "filter is_hook (emitted parse_braces (Create_settles 0 PlayerPhysics True) five_resolved)
     \<noteq> [] \<and>
   step parse_braces (Create_settles 0 PlayerPhysics True) five_resolved =
     five_resolved\<lparr>joins := [Fulfilled],
       trace := trace five_resolved @ [Init PlayerEvent, Clock_start, Start PlayerEvent]\<rparr> \<and>
   joins booted ! 0 = Waiting subsystems \<and>
   joins (step parse_braces (Create_settles 0 PlayerAudio True) booted) ! 0 =
     Waiting (removeAll PlayerAudio subsystems) \<and>
   joins five_resolved ! 0 = Waiting [PlayerPhysics] \<and>
   step parse_braces (Create_settles 0 PlayerPhysics False) five_resolved =
     five_resolved\<lparr>joins := [Rejected]\<rparr> \<and>
   joins audio_rejected ! 0 = Rejected \<and>
   joins (run parse_braces second_session audio_rejected) ! 0 = Rejected \<and>
   filter is_hook
     (emitted parse_braces (Create_settles 1 PlayerPhysics True)
        (run parse_braces second_session audio_rejected)) \<noteq> [] \<and>
   joins (loader_then empty_payload five_resolved) =
     [Waiting [PlayerPhysics], Waiting subsystems]"
proof -
  note a = barrier_gates_hooks
    [where P = parse_braces and a = "Create_settles 0 PlayerPhysics True"
       and s = five_resolved and k = 0 and ws = "[PlayerPhysics]" and ws' = "[]"
       and e = PlayerPhysics and j = 0 and ds = "[PlayerPhysics]" and d = PlayerPhysics
       and as = "[]" and b = "Create_settles 0 PlayerPhysics True" and obj = empty_payload]
  note b = barrier_gates_hooks
    [where P = parse_braces and a = "Create_settles 0 PlayerAudio True"
       and s = booted and k = 0 and ws = subsystems
       and ws' = "[PlayerEvent, PlayerControl, PlayerRenderer, PlayerAnimation, PlayerPhysics]"
       and e = PlayerAudio and j = 0 and ds = subsystems and d = PlayerAudio
       and as = "[]" and b = "Create_settles 0 PlayerAudio True" and obj = empty_payload]
  note c = barrier_gates_hooks
    [where P = parse_braces and a = "Call_resize"
       and s = audio_rejected and k = 0 and ws = "[]" and ws' = "[]"
       and e = PlayerAudio and j = 0 and ds = "[]" and d = PlayerAudio
       and as = second_session and b = "Create_settles 1 PlayerPhysics True"
       and obj = empty_payload]
  have h1: "filter is_hook
      (emitted parse_braces (Create_settles 0 PlayerPhysics True) five_resolved) \<noteq> []"
    by (simp add: five_resolved_last)
  have h2: "filter is_hook
     (emitted parse_braces (Create_settles 1 PlayerPhysics True)
        (run parse_braces second_session audio_rejected)) \<noteq> []"
    using second_waiting_last by (simp add: second_waiting_def)
  have r: "0 < length (joins audio_rejected) \<and> joins audio_rejected ! 0 = Rejected"
    by (simp add: audio_rejected_joins)
  have w5: "0 < length (joins five_resolved) \<and> joins five_resolved ! 0 = Waiting [PlayerPhysics]
      \<and> PlayerPhysics \<in> set [PlayerPhysics] \<and> set [PlayerPhysics] = {PlayerPhysics}"
    by (simp add: five_resolved_joins)
  have wb: "0 < length (joins booted) \<and> joins booted ! 0 = Waiting subsystems"
    by (simp add: booted_joins)
  have sb: "joins (step parse_braces (Create_settles 0 PlayerAudio True) booted) ! 0 =
      Waiting [PlayerEvent, PlayerControl, PlayerRenderer, PlayerAnimation, PlayerPhysics]"
    using booted_audio_resolved by simp
  from a w5 have c1: "step parse_braces (Create_settles 0 PlayerPhysics True) five_resolved =
     five_resolved\<lparr>joins := [Fulfilled],
       trace := trace five_resolved @ [Init PlayerEvent, Clock_start, Start PlayerEvent]\<rparr>"
    by (simp add: five_resolved_joins)
  from b wb sb have
    "[PlayerEvent, PlayerControl, PlayerRenderer, PlayerAnimation, PlayerPhysics] = subsystems \<or>
     (\<exists>c. Create_settles 0 PlayerAudio True = Create_settles 0 c True \<and> c \<in> set subsystems \<and>
        [PlayerEvent, PlayerControl, PlayerRenderer, PlayerAnimation, PlayerPhysics] =
          removeAll c subsystems)"
    by blast
  then have ra: "[PlayerEvent, PlayerControl, PlayerRenderer, PlayerAnimation, PlayerPhysics] =
      removeAll PlayerAudio subsystems"
    by (auto simp add: subsystems_def)
  with sb have c2: "joins (step parse_braces (Create_settles 0 PlayerAudio True) booted) ! 0 =
     Waiting (removeAll PlayerAudio subsystems)"
    by simp
  from a w5 have c3: "step parse_braces (Create_settles 0 PlayerPhysics False) five_resolved =
     five_resolved\<lparr>joins := [Rejected]\<rparr>"
    by (simp add: five_resolved_joins)
  from a have c5: "joins (loader_then empty_payload five_resolved) =
     [Waiting [PlayerPhysics], Waiting subsystems]"
    by (simp add: five_resolved_joins)
  from c r have c4: "joins (run parse_braces second_session audio_rejected) ! 0 = Rejected"
    by blast
  from h1 c1 wb c2 w5 c3 r c4 h2 c5 show ?thesis by blast
qed

text \<open>
  Against C1 as stated: once the loader has resolved, a frame tick is scheduled while
  the barrier still waits for all six subsystems; and after the audio subsystem has
  rejected, the scheduled tick runs the updates, the player is still playing and the
  next tick is scheduled.
\<close>

theorem frame_loop_ignores_barrier:
  "frames booted = 1 \<and> joins booted = [Waiting subsystems] \<and>
   joins (run parse_braces boot_rejected (Player False 800 600)) = [Rejected] \<and>
   isPlaying (run parse_braces boot_rejected (Player False 800 600)) \<and>
   frames (run parse_braces boot_rejected (Player False 800 600)) = 1 \<and>
   Update PlayerPhysics (Lit 0)
     \<in> set (trace (run parse_braces boot_rejected (Player False 800 600)))"
  by (simp add: session_defs player_defs Let_def)

subsection \<open>C2: the hooks behind the barrier\<close>

text \<open>
  C2, as the code has it. When the six \<^verbatim>\<open>create\<close> operations of a barrier have all
  resolved, in whatever order, the player has called \<^verbatim>\<open>init()\<close> of the event
  subsystem, then started the clock, then called \<^verbatim>\<open>start()\<close> of the event subsystem,
  and nothing else: the hooks are those of the event subsystem only.
\<close>

theorem hooks_after_join:
  assumes "i < length (joins s)" and "joins s ! i = Waiting subsystems"
    and "distinct cs" and "set cs = set subsystems"
  shows "run P (resolve i cs) s =
     s\<lparr>joins := (joins s)[i := Fulfilled],
       trace := trace s @ [Init PlayerEvent, Clock_start, Start PlayerEvent]\<rparr>"
proof (rule run_settle_all)
  show "subsystems \<noteq> []" by (simp add: subsystems_def)
qed (use assms in simp_all)

text \<open>The concrete session, its six subsystems resolving in the reverse order.\<close>

theorem hooks_after_join_witness:
  "0 < length (joins booted) \<and> joins booted ! 0 = Waiting subsystems \<and>
   distinct (rev subsystems) \<and> set (rev subsystems) = set subsystems \<and>
   run parse_braces (resolve 0 (rev subsystems)) booted =
     booted\<lparr>joins := [Fulfilled],
            trace := trace booted @ [Init PlayerEvent, Clock_start, Start PlayerEvent]\<rparr>"
proof -
  have h: "0 < length (joins booted)" "joins booted ! 0 = Waiting subsystems"
    "distinct (rev subsystems)" "set (rev subsystems) = set subsystems"
    by (simp_all add: booted_joins) (simp add: subsystems_def)
  from hooks_after_join [OF h, of parse_braces] h show ?thesis
    by (simp add: booted_joins)
qed

text \<open>
  Against C2 as stated: after the six subsystems of the concrete session have resolved,
  the barrier is fulfilled, and neither the controller's nor the physics subsystem's
  \<^verbatim>\<open>start()\<close> has been called; the hooks invoked are the three above.
\<close>

theorem hooks_on_event_only:
  "joins (run parse_braces boot_resolved (Player False 800 600)) = [Fulfilled] \<and>
   Start PlayerControl \<notin> set (trace (run parse_braces boot_resolved (Player False 800 600))) \<and>
   Start PlayerPhysics \<notin> set (trace (run parse_braces boot_resolved (Player False 800 600))) \<and>
   filter is_hook (trace (run parse_braces boot_resolved (Player False 800 600))) =
     [Init PlayerEvent, Clock_start, Start PlayerEvent]"
  by (simp add: session_defs player_defs Let_def)

subsection \<open>C3: invalid input\<close>

text \<open>
  C3. \<^verbatim>\<open>start\<close> with an argument that is not a string reports that a string is
  required, and \<^verbatim>\<open>start\<close> with a string that \<^verbatim>\<open>JSON.parse\<close> rejects reports that the
  scene data cannot be parsed. In both cases the call returns the player as it was,
  with that one message added to the trace: \<^verbatim>\<open>isPlaying\<close> keeps its value, no
  rendering context is made, no load is begun and no \<^verbatim>\<open>create\<close> is invoked.
\<close>

theorem start_invalid_input:
  "(typeof v \<noteq> ''string'' \<longrightarrow>
      start P v s = s\<lparr>trace := trace s @ [UI_msg Msg_string_required]\<rparr>) \<and>
   (P str = None \<longrightarrow>
      start P (JSString str) s = s\<lparr>trace := trace s @ [UI_msg Msg_cannot_parse]\<rparr>)"
  by (simp add: start_def emit_def)

text \<open>The number 42 and the text \<^verbatim>\<open>{not json\<close>, given to a stopped player.\<close>

theorem start_invalid_input_witness:
  "typeof (JSNumber 42) \<noteq> ''string'' \<and> parse_braces ''{not json'' = None \<and>
   start parse_braces (JSNumber 42) (Player False 800 600) =
     (Player False 800 600)\<lparr>trace := [UI_msg Msg_string_required]\<rparr> \<and>
   start parse_braces (JSString ''{not json'') (Player False 800 600) =
     (Player False 800 600)\<lparr>trace := [UI_msg Msg_cannot_parse]\<rparr> \<and>
   \<not> isPlaying (start parse_braces (JSNumber 42) (Player False 800 600)) \<and>
   \<not> isPlaying (start parse_braces (JSString ''{not json'') (Player False 800 600))"
  using start_invalid_input
          [where v = "JSNumber 42" and P = parse_braces and s = "Player False 800 600"
             and str = "''{not json''"]
  by (simp add: parse_braces_def Player_def)

subsection \<open>C4: start and stop are idempotent\<close>

text \<open>
  C4. \<^verbatim>\<open>start\<close> with valid scene data on a player that is playing returns the player
  as it is: no flag is written, no load begun, no \<^verbatim>\<open>create\<close> invoked, no frame
  scheduled. \<^verbatim>\<open>stop\<close> on a player that is not playing returns normally with the player
  as it is: no teardown step is repeated.
\<close>

theorem start_stop_idempotent:
  "(isPlaying s \<and> P str = Some jsons \<longrightarrow> start P (JSString str) s = s) \<and>
   (\<not> isPlaying s \<longrightarrow> stop s = Inr s)"
  by (simp add: start_def stop_def)

text \<open>A second \<^verbatim>\<open>start\<close> on the started player; \<^verbatim>\<open>stop\<close> on the player never started.\<close>

theorem start_stop_idempotent_witness:
  "isPlaying started \<and> parse_braces ''{}'' = Some (JObj []) \<and>
   start parse_braces (JSString ''{}'') started = started \<and>
   \<not> isPlaying (Player False 800 600) \<and>
   stop (Player False 800 600) = Inr (Player False 800 600)"
  using start_stop_idempotent
          [where s = started and P = parse_braces and str = "''{}''" and jsons = "JObj []"]
        start_stop_idempotent
          [where s = "Player False 800 600" and P = parse_braces and str = "''{}''"
             and jsons = "JObj []"]
  by (simp add: started_eval parse_braces_def) (simp add: Player_def)

subsection \<open>C5: the notification init\<close>




subsection \<open>C6: the order of the teardown\<close>

text \<open>
  The teardown where the rendering context is present. Let a mounted player, after
  any history, be playing with a renderer set. Then \<^verbatim>\<open>stop\<close> returns normally, and
  what it does is, in this order: clear \<^verbatim>\<open>isPlaying\<close>; \<^verbatim>\<open>stop()\<close> of the event
  subsystem; \<^verbatim>\<open>dispose()\<close> of the loader, the event subsystem, the controller, the
  audio subsystem, the renderer subsystem, the animation subsystem and the physics
  subsystem; detach the rendering surface from the container and hide the container;
  empty the scene and null the scene, the camera and the renderer; stop the clock.
  Afterwards the player is stopped, holds no scene, camera or renderer, and its
  surface is no child of the hidden container.
\<close>

theorem stop_teardown_order:
  assumes "s = run P as (Player showStats w h)" and "isPlaying s" and "renderer s = Some r"
  shows "\<exists>s'. stop s = Inr s' \<and>
     trace s' = trace s @
       [Set_isPlaying False, Stop PlayerEvent,
        Dispose PlayerLoader, Dispose PlayerEvent, Dispose PlayerControl,
        Dispose PlayerAudio, Dispose PlayerRenderer, Dispose PlayerAnimation,
        Dispose PlayerPhysics,
        RemoveChild (domElement r), Set_display ''none'',
        Set_children_length_0, Set_scene None, Set_camera None, Set_renderer None,
        Clock_stop] \<and>
     \<not> isPlaying s' \<and> scene s' = None \<and> camera s' = None \<and> renderer s' = None \<and>
     display (dom s') = ''none'' \<and> domElement r \<notin> set (childNodes (dom s'))"
proof -
  have "attached s"
    using assms(1) attached_Player attached_run by simp
  with assms(2,3) show ?thesis by (rule stop_teardown)
qed

text \<open>The concrete session, started and loaded, then stopped.\<close>

theorem stop_teardown_order_witness:
  "booted = run parse_braces boot (Player False 800 600) \<and> isPlaying booted \<and>
   renderer booted = Some \<lparr>antialias = True, domElement = Created_node 0\<rparr> \<and>
   (\<exists>s'. stop booted = Inr s' \<and>
     trace s' = trace booted @
       [Set_isPlaying False, Stop PlayerEvent,
        Dispose PlayerLoader, Dispose PlayerEvent, Dispose PlayerControl,
        Dispose PlayerAudio, Dispose PlayerRenderer, Dispose PlayerAnimation,
        Dispose PlayerPhysics,
        RemoveChild (Created_node 0), Set_display ''none'',
        Set_children_length_0, Set_scene None, Set_camera None, Set_renderer None,
        Clock_stop] \<and>
     \<not> isPlaying s' \<and> scene s' = None \<and> camera s' = None \<and> renderer s' = None \<and>
     display (dom s') = ''none'' \<and> Created_node 0 \<notin> set (childNodes (dom s')))"
  using stop_teardown_order [OF booted_def booted_isPlaying booted_renderer]
        booted_isPlaying booted_renderer
  by (simp add: booted_def)

text \<open>
  C6: \<^verbatim>\<open>stop\<close> on a playing player is to run the whole teardown in the fixed order,
  ending with the clock stopped. The code does not on the player that was started and
  whose load is still pending: it is playing, \<^verbatim>\<open>stop\<close> reads the surface of a renderer
  that is null and throws, and it has neither detached a surface, nor hidden the
  container, nor stopped the clock. On the same player \<^verbatim>\<open>resize\<close>, which tests for
  the null renderer, returns normally.
\<close>

theorem stop_teardown_cut_short:
  "started = run parse_braces [Call_start (JSString ''{}'')] (Player False 800 600) \<and>
   isPlaying started \<and> renderer started = None \<and> isl (stop started) \<and>
   Clock_stop \<notin> set (trace (after (stop started))) \<and>
   Set_display ''none'' \<notin> set (trace (after (stop started))) \<and>
   display (dom (after (stop started))) = [] \<and>
   resize started = started"
  by (simp add: session_defs player_defs Let_def)

subsection \<open>C7: the frame tick\<close>

text \<open>
  C7. A frame tick on a playing player reads the clock and then calls \<^verbatim>\<open>update\<close> with
  that delta on the event subsystem, the controller, the renderer subsystem, the
  animation subsystem and the physics subsystem, in this order and once each (between
  the two marks of the statistics overlay where there is one), and schedules the next
  tick; the loader is not updated. A tick on a player that is not playing does
  nothing and schedules nothing. After \<^verbatim>\<open>stop\<close>, however it ended, the player is not
  playing, so the tick that was already scheduled does nothing.
\<close>

theorem animate_order:
  "(isPlaying s \<longrightarrow>
      trace (animate dt s) =
        trace s @ (if stats s then [Stats_begin] else []) @
        [Clock_getDelta,
         Update PlayerEvent dt, Update PlayerControl dt, Update PlayerRenderer dt,
         Update PlayerAnimation dt, Update PlayerPhysics dt] @
        (if stats s then [Stats_end] else []) @ [RequestAnimationFrame] \<and>
      frames (animate dt s) = frames s + 1) \<and>
   (\<not> isPlaying s \<longrightarrow> animate dt s = s) \<and>
   animate dt (after (stop s)) = after (stop s)"
  using isPlaying_after_stop [of s]
  by (simp add: animate_def requestAnimationFrame_def emit_def Let_def)

text \<open>A tick in the concrete session, and a tick on the player never started.\<close>

theorem animate_order_witness:
  "isPlaying booted \<and>
   trace (animate (Lit 0) booted) =
     trace booted @
     [Clock_getDelta,
      Update PlayerEvent (Lit 0), Update PlayerControl (Lit 0), Update PlayerRenderer (Lit 0),
      Update PlayerAnimation (Lit 0), Update PlayerPhysics (Lit 0), RequestAnimationFrame] \<and>
   frames (animate (Lit 0) booted) = 2 \<and>
   \<not> isPlaying (Player False 800 600) \<and>
   animate (Lit 0) (Player False 800 600) = Player False 800 600"
  using animate_order [where s = booted and dt = "Lit 0"]
        animate_order [where s = "Player False 800 600" and dt = "Lit 0"]
  by (simp add: booted_isPlaying booted_stats booted_frames) (simp add: Player_def)

subsection \<open>C8: the bootstrap of the rendering context\<close>

text \<open>
  C8. With \<open>w\<close> and \<open>h\<close> the width and height of the container: if the payload has no
  camera, the camera is a new perspective camera of aspect \<open>w / h\<close> (field of view 50,
  near 0.1, far 1000); if it has no renderer, the renderer is a new one with a canvas
  of its own; if it has no scene, the scene is a new, empty one. In every case the
  renderer is sized to \<open>w\<close> by \<open>h\<close> and its surface appended to, and then a child of,
  the container, and the payload's audio listener, or a new one, is added to the camera.
\<close>

theorem initPlayer_bootstrap:
  "(obj_camera obj = None \<longrightarrow>
      camera (initPlayer obj s) =
        Some \<lparr>fov = Lit 50, aspect = Quot (clientWidth (dom s)) (clientHeight (dom s)),
              near = Lit (1 / 10), far = Lit 1000\<rparr>) \<and>
   (obj_renderer obj = None \<longrightarrow>
      renderer (initPlayer obj s) =
        Some \<lparr>antialias = True, domElement = Created_node (created s)\<rparr>) \<and>
   (obj_scene obj = None \<longrightarrow> scene (initPlayer obj s) = Some \<lparr>children = []\<rparr>) \<and>
   (\<exists>cam r sc.
      camera (initPlayer obj s) = Some cam \<and>
      renderer (initPlayer obj s) = Some r \<and>
      scene (initPlayer obj s) = Some sc \<and>
      domElement r \<in> set (childNodes (dom (initPlayer obj s))) \<and>
      trace (initPlayer obj s) =
        trace s @ Set_camera (obj_camera obj) #
        (if obj_camera obj = None then [Console_warn, Set_camera (Some cam)] else []) @
        [Camera_updateProjectionMatrix,
         Set_renderer (Some r),
         Renderer_setSize (clientWidth (dom s)) (clientHeight (dom s)),
         AppendChild (domElement r),
         Camera_add (case obj_audioListener obj of
                       Some l \<Rightarrow> Payload_listener l | None \<Rightarrow> New_AudioListener),
         Set_scene (Some sc)])"
  by (auto simp add: initPlayer_def appendChild_def emit_def new_PerspectiveCamera_def Let_def
      split: option.splits)

text \<open>The payload with no camera, renderer, listener or scene, in the started player.\<close>

theorem initPlayer_bootstrap_witness:
  "obj_camera empty_payload = None \<and> obj_renderer empty_payload = None \<and>
   obj_scene empty_payload = None \<and>
   camera (initPlayer empty_payload started) =
     Some \<lparr>fov = Lit 50, aspect = Quot 800 600, near = Lit (1 / 10), far = Lit 1000\<rparr> \<and>
   renderer (initPlayer empty_payload started) =
     Some \<lparr>antialias = True, domElement = Created_node 0\<rparr> \<and>
   scene (initPlayer empty_payload started) = Some \<lparr>children = []\<rparr> \<and>
   Created_node 0 \<in> set (childNodes (dom (initPlayer empty_payload started))) \<and>
   drop (length (trace started)) (trace (initPlayer empty_payload started)) =
     [Set_camera None, Console_warn,
      Set_camera
        (Some \<lparr>fov = Lit 50, aspect = Quot 800 600, near = Lit (1 / 10), far = Lit 1000\<rparr>),
      Camera_updateProjectionMatrix,
      Set_renderer (Some \<lparr>antialias = True, domElement = Created_node 0\<rparr>),
      Renderer_setSize 800 600, AppendChild (Created_node 0),
      Camera_add New_AudioListener, Set_scene (Some \<lparr>children = []\<rparr>)]"
proof -
  have h: "obj_camera empty_payload = None" "obj_renderer empty_payload = None"
    "obj_scene empty_payload = None" "obj_audioListener empty_payload = None"
    by (simp_all add: empty_payload_def)
  have d: "clientWidth (dom started) = 800" "clientHeight (dom started) = 600"
    "created started = 0"
    by (simp_all add: started_eval)
  from initPlayer_bootstrap [where obj = empty_payload and s = started] h d
  show ?thesis by auto
qed

subsection \<open>C9: resize\<close>

text \<open>
  C9. \<^verbatim>\<open>resize\<close> on a player without a camera or without a renderer returns the
  player as it is; the model has no exception on this path. On a player with both it
  sets the aspect of the camera to the width of the container divided by its height,
  then updates the projection matrix of the camera, then sizes the renderer to the
  width and height of the container, and changes nothing else.
\<close>

theorem resize_behaviour:
  "((camera s = None \<or> renderer s = None) \<longrightarrow> resize s = s) \<and>
   (camera s = Some cam \<and> renderer s = Some r \<longrightarrow>
      resize s =
        s\<lparr>camera := Some (cam\<lparr>aspect := Quot (clientWidth (dom s)) (clientHeight (dom s))\<rparr>),
          trace := trace s @
            [Set_aspect (Quot (clientWidth (dom s)) (clientHeight (dom s))),
             Camera_updateProjectionMatrix,
             Renderer_setSize (clientWidth (dom s)) (clientHeight (dom s))]\<rparr>)"
  by (auto simp add: resize_def emit_def Let_def split: option.splits)

text \<open>
  The player never started, and the concrete session when its container becomes
  1024 by 768.
\<close>

theorem resize_behaviour_witness:
  "camera (Player False 800 600) = None \<and>
   resize (Player False 800 600) = Player False 800 600 \<and>
   camera booted =
     Some \<lparr>fov = Lit 50, aspect = Quot 800 600, near = Lit (1 / 10), far = Lit 1000\<rparr> \<and>
   renderer booted = Some \<lparr>antialias = True, domElement = Created_node 0\<rparr> \<and>
   camera (step parse_braces (Host_resize 1024 768) booted) =
     Some \<lparr>fov = Lit 50, aspect = Quot 1024 768, near = Lit (1 / 10), far = Lit 1000\<rparr> \<and>
   trace (step parse_braces (Host_resize 1024 768) booted) =
     trace booted @
     [Set_aspect (Quot 1024 768), Camera_updateProjectionMatrix, Renderer_setSize 1024 768]"
  using resize_behaviour [where s = "Player False 800 600"]
        resize_behaviour
          [where s = "booted\<lparr>dom := (dom booted)\<lparr>clientWidth := 1024, clientHeight := 768\<rparr>\<rparr>"
             and cam = "\<lparr>fov = Lit 50, aspect = Quot 800 600, near = Lit (1 / 10), far = Lit 1000\<rparr>"
             and r = "\<lparr>antialias = True, domElement = Created_node 0\<rparr>"]
  by (simp add: booted_camera booted_renderer onResize_def) (simp add: Player_def)

subsection \<open>C10: stop before the bootstrap\<close>

text \<open>
  C10. \<^verbatim>\<open>stop\<close> on a player that is playing but has no renderer yet (the load of the
  session is still pending) clears \<^verbatim>\<open>isPlaying\<close>, calls \<^verbatim>\<open>stop()\<close> of the event
  subsystem and \<^verbatim>\<open>dispose()\<close> of all seven components, and then throws a TypeError
  at the read of the renderer's surface: the container is not hidden, nothing is
  nulled, and the clock is not stopped by this call.
\<close>

theorem stop_before_bootstrap:
  "isPlaying s \<Longrightarrow> renderer s = None \<Longrightarrow>
   stop s =
     Inl (TypeError,
          s\<lparr>isPlaying := False,
            trace := trace s @
              [Set_isPlaying False, Stop PlayerEvent,
               Dispose PlayerLoader, Dispose PlayerEvent, Dispose PlayerControl,
               Dispose PlayerAudio, Dispose PlayerRenderer, Dispose PlayerAnimation,
               Dispose PlayerPhysics]\<rparr>) \<and>
   Clock_stop \<notin> set (drop (length (trace s)) (trace (after (stop s)))) \<and>
   display (dom (after (stop s))) = display (dom s)"
  by (simp add: stop_def after_def emit_def Let_def)

text \<open>The started player, its load pending.\<close>

theorem stop_before_bootstrap_witness:
  "isPlaying started \<and> renderer started = None \<and> loads started = 1 \<and>
   stop started =
     Inl (TypeError,
          started\<lparr>isPlaying := False,
            trace := trace started @
              [Set_isPlaying False, Stop PlayerEvent,
               Dispose PlayerLoader, Dispose PlayerEvent, Dispose PlayerControl,
               Dispose PlayerAudio, Dispose PlayerRenderer, Dispose PlayerAnimation,
               Dispose PlayerPhysics]\<rparr>) \<and>
   Clock_stop \<notin> set (drop (length (trace started)) (trace (after (stop started)))) \<and>
   display (dom (after (stop started))) = []"
proof -
  have h: "isPlaying started" "renderer started = None" "loads started = 1"
    "display (dom started) = []"
    by (simp_all add: started_eval)
  from stop_before_bootstrap [OF h(1,2)] h show ?thesis by (simp add: after_def)
qed

end
